theory Spec2Isabelle
  imports Complex_Main
begin

section \<open>Numbers, the math library and the collaborating packages\<close>

text \<open>
  The library computes on \<open>float64\<close>.  Here a \<open>float64\<close> is a real number, and the
  functions of Go's \<open>math\<close> package are the real functions they approximate
  (\<open>math.Sin\<close> is \<open>sin\<close>, \<open>math.Asin\<close> is \<open>arcsin\<close>, \<open>math.Sqrt\<close> is \<open>sqrt\<close>,
  \<open>math.Pi\<close> is \<open>pi\<close>).  Rounding, signed zeros, infinities and NaN are outside this
  model; the statements below are about the data flow and the algebra of the
  algorithms.
\<close>

definition Sincos :: "real \<Rightarrow> real \<times> real" where
  "Sincos x = (sin x, cos x)"

text \<open>\<open>math.Atan2(y, x)\<close> on finite arguments: the angle of the point \<open>(x, y)\<close>.\<close>

definition Atan2 :: "real \<Rightarrow> real \<Rightarrow> real" where
  "Atan2 y x =
     (if 0 < x then arctan (y / x)
      else if x < 0 then (if 0 \<le> y then arctan (y / x) + pi else arctan (y / x) - pi)
      else if 0 < y then pi / 2
      else if y < 0 then - (pi / 2)
      else 0)"

definition Hypot :: "real \<Rightarrow> real \<Rightarrow> real" where
  "Hypot p q = sqrt (p * p + q * q)"

text \<open>
  The packages \<open>base\<close>, \<open>unit\<close>, \<open>coord\<close>, \<open>nutation\<close> and \<open>planetposition\<close> are
  imported by the sources modelled here, and their own sources are not part of
  what is verified.  Every function and constant taken from them is a field of
  the record below, so that every theorem holds whatever these collaborators
  compute.  They are functions: called twice on the same arguments they return
  the same results, and a panic inside one of them is outside the model.  The
  type parameter \<open>'p\<close> is \<open>pp.V87Planet\<close>.  Angles
  (\<open>unit.Angle\<close>, \<open>base.Angle\<close>, \<open>base.HourAngle\<close>) are \<open>float64\<close> values.
\<close>

record 'p pkgs =
  Horner :: "real \<Rightarrow> real list \<Rightarrow> real"
  CosSmallAngle :: real
  J2000Century :: "real \<Rightarrow> real"
  LightTime :: "real \<Rightarrow> real"
  HourAngle_Rad :: "real \<Rightarrow> real"
  Angle_Rad :: "real \<Rightarrow> real"
  Angle_Sin :: "real \<Rightarrow> real"
  Angle_Cos :: "real \<Rightarrow> real"
  Angle_Div :: "real \<Rightarrow> real \<Rightarrow> real"
  Angle_Mul :: "real \<Rightarrow> real \<Rightarrow> real"
  AngleFromDeg :: "real \<Rightarrow> real"
  AngleFromSec :: "real \<Rightarrow> real"
  V87Planet_Position :: "'p \<Rightarrow> real \<Rightarrow> real \<times> real \<times> real"
  ToFK5 :: "real \<Rightarrow> real \<Rightarrow> real \<Rightarrow> real \<times> real"
  Nutation :: "real \<Rightarrow> real \<times> real"
  MeanObliquity :: "real \<Rightarrow> real"
  EclToEq :: "real \<Rightarrow> real \<Rightarrow> real \<Rightarrow> real \<Rightarrow> real \<times> real"

definition Angle_Sincos :: "'p pkgs \<Rightarrow> real \<Rightarrow> real \<times> real" where
  "Angle_Sincos K a = (Angle_Sin K a, Angle_Cos K a)"


section \<open>Package precess: precession of equatorial coordinates\<close>

text \<open>
  \<open>coord.Equatorial\<close> is a struct with the fields \<open>RA\<close> and \<open>Dec\<close>.  The functions
  take pointers to such structs and write through them, and two pointers may
  point to the same struct, so the structs live in a store indexed by
  addresses.  A pointer is an address or \<open>nil\<close>; dereferencing \<open>nil\<close> panics.
\<close>

record Equatorial =
  RA :: real
  Dec :: real

type_synonym addr = nat
type_synonym ptr = "addr option"
type_synonym store = "addr \<Rightarrow> Equatorial"

datatype panic = NilDereference

record Precessor =
  zeta :: real
  z :: real
  s_theta :: real
  c_theta :: real

definition zeta_t :: "real list" where
  "zeta_t = [2306.2181, 0.30188, 0.017998]"

definition z_t :: "real list" where
  "z_t = [2306.2181, 1.09468, 0.018203]"

definition theta_t :: "real list" where
  "theta_t = [2004.3109, - 0.42665, - 0.041833]"

definition zeta_T :: "real list" where
  "zeta_T = [2306.2181, 1.39656, - 0.000139]"

definition z_T :: "real list" where
  "z_T = [2306.2181, 1.39656, - 0.000139]"

definition theta_T :: "real list" where
  "theta_T = [2004.3109, - 0.8533, - 0.000217]"

definition NewPrecessor :: "'p pkgs \<Rightarrow> real \<Rightarrow> real \<Rightarrow> Precessor" where
  "NewPrecessor K epochFrom epochTo =
     (let (zetaCoeff, zCoeff, thetaCoeff) =
            (if epochFrom \<noteq> 2000
             then (let T = (epochFrom - 2000) * 0.01
                   in ([Horner K T zeta_T, 0.30188 - 0.000344 * T, 0.017998],
                       [Horner K T z_T, 1.09468 - 0.000066 * T, 0.018203],
                       [Horner K T theta_T, - 0.42665 - 0.000217 * T, - 0.041833]))
             else (zeta_t, z_t, theta_t));
          t = (epochTo - epochFrom) * 0.01;
          theta = Horner K t thetaCoeff * t * pi / 180 / 3600;
          (sth, cth) = Sincos theta
      in \<lparr> zeta = Horner K t zetaCoeff * t * pi / 180 / 3600,
           z = Horner K t zCoeff * t * pi / 180 / 3600,
           s_theta = sth,
           c_theta = cth \<rparr>)"

text \<open>
  \<open>Precess\<close> reads \<open>eqFrom\<close>, then writes \<open>eqTo.RA\<close>, then \<open>eqTo.Dec\<close>, and returns
  \<open>eqTo\<close>.
\<close>

definition Precess ::
  "'p pkgs \<Rightarrow> Precessor \<Rightarrow> ptr \<Rightarrow> ptr \<Rightarrow> store \<Rightarrow> panic + (ptr \<times> store)" where
  "Precess K p eqFrom eqTo st =
     (case eqFrom of
        None \<Rightarrow> Inl NilDereference
      | Some f \<Rightarrow>
          (let (sd, cd) = Sincos (Dec (st f));
               (saz, caz) = Sincos (RA (st f) + zeta p);
               A = cd * saz;
               B = c_theta p * cd * caz - s_theta p * sd;
               C = s_theta p * cd * caz + c_theta p * sd
           in (case eqTo of
                 None \<Rightarrow> Inl NilDereference
               | Some d \<Rightarrow>
                   (let st1 = st(d := (st d)\<lparr>RA := Atan2 A B + z p\<rparr>);
                        st2 = st1(d := (st1 d)\<lparr>Dec :=
                                (if C < CosSmallAngle K then arcsin C
                                 else arccos (sqrt (A * A + B * B)))\<rparr>)
                    in Inr (eqTo, st2)))))"

definition Position ::
  "'p pkgs \<Rightarrow> ptr \<Rightarrow> ptr \<Rightarrow> real \<Rightarrow> real \<Rightarrow> real \<Rightarrow> real \<Rightarrow> store \<Rightarrow> panic + (ptr \<times> store)" where
  "Position K eqFrom eqTo epochFrom epochTo malpha mdelta st =
     (let p = NewPrecessor K epochFrom epochTo;
          t = epochTo - epochFrom
      in (case eqTo of
            None \<Rightarrow> Inl NilDereference
          | Some d \<Rightarrow>
              (case eqFrom of
                 None \<Rightarrow> Inl NilDereference
               | Some f \<Rightarrow>
                   (let st1 = st(d := (st d)\<lparr>RA := RA (st f) + HourAngle_Rad K malpha * t\<rparr>);
                        st2 = st1(d := (st1 d)\<lparr>Dec := Dec (st1 f) + Angle_Rad K mdelta * t\<rparr>)
                    in Precess K p eqTo eqTo st2))))"


section \<open>Package saturnring: the ring of Saturn\<close>

text \<open>
  \<open>cl\<close> declares the variables below, initialises \<open>\<Delta>\<close> to 9 and every other
  variable to zero, and returns two closures \<open>f1\<close> and \<open>f2\<close> that share them.  A
  closure is a function from the captured variables to its results and the
  captured variables after the call.
\<close>

record cl_vars =
  cl_i :: real
  cl_Omega :: real
  cl_l0 :: real
  cl_b0 :: real
  cl_R :: real
  cl_Delta :: real
  cl_lambda :: real
  cl_beta :: real
  cl_si :: real
  cl_ci :: real
  cl_sbeta :: real
  cl_cbeta :: real
  cl_sB :: real
  cl_sb' :: real
  cl_cb' :: real
  cl_sl'Omega :: real
  cl_cl'Omega :: real

definition cl_init :: cl_vars where
  "cl_init =
     \<lparr> cl_i = 0, cl_Omega = 0, cl_l0 = 0, cl_b0 = 0, cl_R = 0, cl_Delta = 9,
       cl_lambda = 0, cl_beta = 0, cl_si = 0, cl_ci = 0, cl_sbeta = 0, cl_cbeta = 0,
       cl_sB = 0, cl_sb' = 0, cl_cb' = 0, cl_sl'Omega = 0, cl_cl'Omega = 0 \<rparr>"

text \<open>
  The inner closure \<open>f\<close> of \<open>f1\<close> (steps 3 and 4) overwrites the locals
  \<open>l, b, r, x, y, z\<close> of \<open>f1\<close> and the captured \<open>\<Delta>\<close>; it reads \<open>\<Delta>\<close>, \<open>R\<close> and the
  sines and cosines of \<open>l0\<close> and \<open>b0\<close>.
\<close>

definition f1_f ::
  "'p pkgs \<Rightarrow> real \<Rightarrow> 'p \<Rightarrow> real \<Rightarrow> real \<Rightarrow> real \<Rightarrow> real \<Rightarrow> real
     \<Rightarrow> real \<times> real \<times> real \<times> real \<times> real \<times> real \<times> real" where
  "f1_f K jde saturn R sl0 cl0 sb0 Delta =
     (let tau = LightTime K Delta;
          (l, b, r) = V87Planet_Position K saturn (jde - tau);
          (l, b) = ToFK5 K l b jde;
          (sl, cl) = Angle_Sincos K l;
          (sb, cb) = Angle_Sincos K b;
          x = r * cb * cl - R * cl0;
          y = r * cb * sl - R * sl0;
          z = r * sb - R * sb0
      in (l, b, r, x, y, z, sqrt (x * x + y * y + z * z)))"

definition f1 ::
  "'p pkgs \<Rightarrow> real \<Rightarrow> 'p \<Rightarrow> 'p \<Rightarrow> cl_vars \<Rightarrow> (real \<times> real) \<times> cl_vars" where
  "f1 K jde earth saturn v =
     (let T = J2000Century K jde;
          i = AngleFromDeg K (Horner K T [28.075216, - 0.012998, 0.000004]);
          Omega = AngleFromDeg K (Horner K T [169.50847, 1.394681, 0.000412]);
          (l0, b0, R) = V87Planet_Position K earth jde;
          (l0, b0) = ToFK5 K l0 b0 jde;
          (sl0, cl0) = Angle_Sincos K l0;
          sb0 = Angle_Sin K b0;
          (l, b, r, x, y, z, Delta) = f1_f K jde saturn R sl0 cl0 sb0 (cl_Delta v);
          (l, b, r, x, y, z, Delta) = f1_f K jde saturn R sl0 cl0 sb0 Delta;
          lambda = Atan2 y x;
          beta = arctan (z / Hypot x y);
          (si, ci) = Angle_Sincos K i;
          (sbeta, cbeta) = Angle_Sincos K beta;
          sB = si * cbeta * Angle_Sin K (lambda - Omega) - ci * sbeta;
          B = arcsin sB;
          N = AngleFromDeg K (113.6655 + 0.8771 * T);
          l' = l - Angle_Div K (AngleFromDeg K 0.01759) r;
          b' = b - Angle_Mul K (AngleFromDeg K 0.000764) (Angle_Cos K (l - N) / r);
          (sb', cb') = Angle_Sincos K b';
          (sl'Omega, cl'Omega) = Angle_Sincos K (l' - Omega);
          (slO, clO) = Angle_Sincos K (lambda - Omega);
          U1 = Atan2 (si * sb' + ci * cb' * sl'Omega) (cb' * cl'Omega);
          U2 = Atan2 (si * sbeta + ci * cbeta * slO) (cbeta * clO);
          dU = \<bar>Angle_Rad K (U1 - U2)\<bar>
      in ((dU, B),
          v\<lparr> cl_i := i, cl_Omega := Omega, cl_l0 := l0, cl_b0 := b0, cl_R := R,
             cl_Delta := Delta, cl_lambda := lambda, cl_beta := beta,
             cl_si := si, cl_ci := ci, cl_sbeta := sbeta, cl_cbeta := cbeta,
             cl_sB := sB, cl_sb' := sb', cl_cb' := cb',
             cl_sl'Omega := sl'Omega, cl_cl'Omega := cl'Omega \<rparr>))"

definition f2 ::
  "'p pkgs \<Rightarrow> real \<Rightarrow> cl_vars \<Rightarrow> (real \<times> real \<times> real \<times> real) \<times> cl_vars" where
  "f2 K jde v =
     (let aEdge = Angle_Div K (AngleFromSec K 375.35) (cl_Delta v);
          bEdge = Angle_Mul K aEdge \<bar>cl_sB v\<bar>;
          sB' = cl_si v * cl_cb' v * cl_sl'Omega v - cl_ci v * cl_sb' v;
          B' = arcsin sB';
          (dpsi, deps) = Nutation K jde;
          eps = MeanObliquity K jde + deps;
          lambda0 = cl_Omega v - pi / 2;
          beta0 = pi / 2 - cl_i v;
          (sl0l, cl0l) = Angle_Sincos K (cl_l0 v - cl_lambda v);
          lambda = cl_lambda v + Angle_Mul K (AngleFromDeg K 0.005693) (cl0l / cl_cbeta v);
          beta = cl_beta v + Angle_Mul K (AngleFromDeg K 0.005693) (sl0l * cl_sbeta v);
          lambda0 = lambda0 + dpsi;
          lambda = lambda + dpsi;
          (seps, ceps) = Angle_Sincos K eps;
          (alpha0, delta0) = EclToEq K lambda0 beta0 seps ceps;
          (alpha, delta) = EclToEq K lambda beta seps ceps;
          (sd0, cd0) = Angle_Sincos K delta0;
          (sd, cd) = Angle_Sincos K delta;
          (sa0a, ca0a) = Angle_Sincos K (alpha0 - alpha);
          P = Atan2 (cd0 * sa0a) (sd0 * cd - cd0 * sd * ca0a)
      in ((B', P, aEdge, bEdge), v\<lparr> cl_lambda := lambda, cl_beta := beta \<rparr>))"

text \<open>
  \<open>cl\<close> returns the two closures and the variables they share, freshly
  initialised.
\<close>

definition cl ::
  "'p pkgs \<Rightarrow> real \<Rightarrow> 'p \<Rightarrow> 'p
     \<Rightarrow> (cl_vars \<Rightarrow> (real \<times> real) \<times> cl_vars)
       \<times> (cl_vars \<Rightarrow> (real \<times> real \<times> real \<times> real) \<times> cl_vars)
       \<times> cl_vars" where
  "cl K jde earth saturn = (f1 K jde earth saturn, f2 K jde, cl_init)"

text \<open>
  \<open>Ring\<close> results are \<open>(B, B', \<Delta>U, P, aEdge, bEdge)\<close>, \<open>UB\<close> results are \<open>(\<Delta>U, B)\<close>.
  \<open>Ring\<close> calls the first closure and then the second; \<open>UB\<close> calls the first and
  drops the second.
\<close>

definition Ring ::
  "'p pkgs \<Rightarrow> real \<Rightarrow> 'p \<Rightarrow> 'p \<Rightarrow> real \<times> real \<times> real \<times> real \<times> real \<times> real" where
  "Ring K jde earth saturn =
     (let (c1, c2, v0) = cl K jde earth saturn;
          ((dU, B), v1) = c1 v0;
          ((B', P, aEdge, bEdge), v2) = c2 v1
      in (B, B', dU, P, aEdge, bEdge))"

definition UB :: "'p pkgs \<Rightarrow> real \<Rightarrow> 'p \<Rightarrow> 'p \<Rightarrow> real \<times> real" where
  "UB K jde earth saturn =
     (let (c1, c2, v0) = cl K jde earth saturn
      in fst (c1 v0))"


text \<open>
  A sample of collaborators, to run the functions above on concrete inputs.
  Nothing is proved about the real collaborators from it.
\<close>

definition sample_pkgs :: "unit pkgs" where
  "sample_pkgs =
     \<lparr> Horner = (\<lambda>x cs. foldr (\<lambda>c acc. c + x * acc) cs 0),
       CosSmallAngle = 1,
       J2000Century = (\<lambda>jde. (jde - 2451545) / 36525),
       LightTime = (\<lambda>d. 0.0057755183 * d),
       HourAngle_Rad = (\<lambda>h. h),
       Angle_Rad = (\<lambda>a. a),
       Angle_Sin = sin,
       Angle_Cos = cos,
       Angle_Div = (\<lambda>a x. a / x),
       Angle_Mul = (\<lambda>a x. a * x),
       AngleFromDeg = (\<lambda>d. d * pi / 180),
       AngleFromSec = (\<lambda>s. s * pi / 180 / 3600),
       V87Planet_Position = (\<lambda>p jde. (0, 0, 1)),
       ToFK5 = (\<lambda>l b jde. (l, b)),
       Nutation = (\<lambda>jde. (0, 0)),
       MeanObliquity = (\<lambda>jde. 0),
       EclToEq = (\<lambda>l b s c. (l, b)) \<rparr>"


section \<open>Package kepler: the iterative solvers of Kepler's equation\<close>

text \<open>
  The source of package \<open>kepler\<close> is not among the sources (only its examples in
  \<open>kepler/kepler_test.go\<close> are), so the solvers are modelled from section 4.1 of
  the specification, over the reals.  The specification leaves the internal
  tolerance and the robust initial guess open; they are the parameters \<open>tol\<close>
  and \<open>seed\<close>.
\<close>

datatype kepler_error = NonConvergence

text \<open>
  Modelled from the spec: the loop shared by the iterative solvers, missing with
  the package.  Starting from an initial guess, repeat the update rule until the
  difference of successive iterates falls below the tolerance (success, with
  the new iterate) or \<open>n\<close> iterations are exhausted (the failure "did not
  converge").
\<close>

fun iterate_tol :: "(real \<Rightarrow> real) \<Rightarrow> real \<Rightarrow> nat \<Rightarrow> real \<Rightarrow> kepler_error + real" where
  "iterate_tol step tol 0 E0 = Inl NonConvergence"
| "iterate_tol step tol (Suc k) E0 =
     (let E1 = step E0
      in if \<bar>E1 - E0\<bar> < tol then Inr E1 else iterate_tol step tol k E1)"

text \<open>
  Modelled from the spec: the update rule of \<open>Kepler1\<close> (fixed-point iteration),
  \<open>E\<^sub>k\<^sub>+\<^sub>1 = M + e sin E\<^sub>k\<close>.
\<close>

definition Kepler1_step :: "real \<Rightarrow> real \<Rightarrow> real \<Rightarrow> real" where
  "Kepler1_step e M E = M + e * sin E"

text \<open>
  Modelled from the spec: the update rule of the Newton-Raphson solvers,
  \<open>E\<^sub>k\<^sub>+\<^sub>1 = E\<^sub>k - (E\<^sub>k - e sin E\<^sub>k - M) / (1 - e cos E\<^sub>k)\<close>.
\<close>

definition Kepler2_step :: "real \<Rightarrow> real \<Rightarrow> real \<Rightarrow> real" where
  "Kepler2_step e M E = E - (E - e * sin E - M) / (1 - e * cos E)"

text \<open>
  Modelled from the spec: \<open>Kepler1\<close>, missing with the package.  Fixed-point
  iteration from \<open>E\<^sub>0 = M\<close> with the iteration budget \<open>n\<close>.
\<close>

definition Kepler1 :: "real \<Rightarrow> real \<Rightarrow> real \<Rightarrow> int \<Rightarrow> kepler_error + real" where
  "Kepler1 tol e M n = iterate_tol (Kepler1_step e M) tol (nat n) M"

text \<open>
  Modelled from the spec: \<open>Kepler2\<close>, missing with the package.  Newton-Raphson
  from the standard start \<open>E\<^sub>0 = M\<close>.
\<close>

definition Kepler2 :: "real \<Rightarrow> real \<Rightarrow> real \<Rightarrow> int \<Rightarrow> kepler_error + real" where
  "Kepler2 tol e M n = iterate_tol (Kepler2_step e M) tol (nat n) M"

text \<open>
  Modelled from the spec: \<open>Kepler2a\<close>, missing with the package.  The update rule
  of \<open>Kepler2\<close> from a more robust initial guess \<open>seed e M\<close>.
\<close>

definition Kepler2a ::
  "real \<Rightarrow> (real \<Rightarrow> real \<Rightarrow> real) \<Rightarrow> real \<Rightarrow> real \<Rightarrow> int \<Rightarrow> kepler_error + real" where
  "Kepler2a tol seed e M n = iterate_tol (Kepler2_step e M) tol (nat n) (seed e M)"

text \<open>
  Modelled from the spec: \<open>Kepler2b\<close>, missing with the package.  Functionally
  identical to \<open>Kepler2a\<close>, on raw radians instead of typed angles; over the reals
  the two coincide.
\<close>

definition Kepler2b ::
  "real \<Rightarrow> (real \<Rightarrow> real \<Rightarrow> real) \<Rightarrow> real \<Rightarrow> real \<Rightarrow> int \<Rightarrow> kepler_error + real" where
  "Kepler2b tol seed e M n = iterate_tol (Kepler2_step e M) tol (nat n) (seed e M)"

text \<open>The residual \<open>E - e sin E - M\<close> of Kepler's equation at \<open>E\<close>.\<close>

definition residual :: "real \<Rightarrow> real \<Rightarrow> real \<Rightarrow> real" where
  "residual e M E = E - e * sin E - M"

text \<open>
  The budget of \<open>n\<close> iterations is exhausted before the tolerance is met: none of
  the first \<open>n\<close> corrections is below \<open>tol\<close>.
\<close>

definition exhausted :: "(real \<Rightarrow> real) \<Rightarrow> real \<Rightarrow> nat \<Rightarrow> real \<Rightarrow> bool" where
  "exhausted step tol n E0 \<longleftrightarrow>
     (\<forall>k \<in> {..<n}. \<not> \<bar>(step ^^ Suc k) E0 - (step ^^ k) E0\<bar> < tol)"

text \<open>
  \<open>E\<close> is the iterate number \<open>k + 1\<close>, and its correction is below the tolerance.
\<close>

definition converged_at :: "(real \<Rightarrow> real) \<Rightarrow> real \<Rightarrow> real \<Rightarrow> nat \<Rightarrow> real \<Rightarrow> bool" where
  "converged_at step tol E0 k E \<longleftrightarrow>
     E = (step ^^ Suc k) E0 \<and> \<bar>(step ^^ Suc k) E0 - (step ^^ k) E0\<bar> < tol"


section \<open>Precession: position without proper motion\<close>

text \<open>
  Claim C10.  For every pair of epochs, every store and every non-nil \<open>eqFrom\<close>
  and \<open>eqTo\<close> (the same struct or two structs), \<open>Position\<close> with zero proper motions
  leaves in \<open>eqTo\<close> the coordinates that \<open>Precess\<close> of
  \<open>NewPrecessor epochFrom epochTo\<close> leaves in its target when applied to \<open>eqFrom\<close>
  directly.  \<open>Precess\<close> of any precessor leaves the same coordinates in its
  target whether the target is \<open>eqFrom\<close> itself or another struct, and it leaves
  a distinct \<open>eqFrom\<close> as it was.  The conversions of the proper motions to
  radians send zero to zero.
\<close>

theorem Position_zero_motion_is_Precess:
  assumes "HourAngle_Rad K 0 = 0" and "Angle_Rad K 0 = 0"
  shows "(\<exists>s1 s2.
            Position K (Some a) (Some b) epochFrom epochTo 0 0 st = Inr (Some b, s1) \<and>
            Precess K (NewPrecessor K epochFrom epochTo) (Some a) (Some c) st = Inr (Some c, s2) \<and>
            s1 b = s2 c) \<and>
         (\<exists>s2 s3.
            Precess K p (Some a) (Some c) st = Inr (Some c, s2) \<and>
            Precess K p (Some a) (Some a) st = Inr (Some a, s3) \<and>
            s3 a = s2 c \<and> (a \<noteq> c \<longrightarrow> s2 a = st a))"
  using assms
  by (simp add: Position_def Precess_def Let_def split_beta)

theorem Position_zero_motion_is_Precess_witness:
  "HourAngle_Rad sample_pkgs 0 = 0 \<and> Angle_Rad sample_pkgs 0 = 0 \<and> (0::nat) \<noteq> 1 \<and>
   (\<exists>s2. Precess sample_pkgs (NewPrecessor sample_pkgs 2000 2050) (Some 0) (Some 1)
            (\<lambda>_. \<lparr>RA = 0, Dec = 0\<rparr>) = Inr (Some 1, s2) \<and>
          s2 0 = \<lparr>RA = 0, Dec = 0\<rparr>)"
  using Position_zero_motion_is_Precess
    [of sample_pkgs 0 1 2000 2050 "\<lambda>_. \<lparr>RA = 0, Dec = 0\<rparr>" 1 "NewPrecessor sample_pkgs 2000 2050"]
  by (auto simp: sample_pkgs_def)


section \<open>The ring of Saturn: the two closures\<close>

text \<open>
  Claim C9.  For every \<open>jde\<close> and every pair of planets, \<open>UB\<close> returns the pair
  \<open>(\<Delta>U, B)\<close> that \<open>Ring\<close> returns as its third and first results: what the first
  closure returns does not depend on the second closure being called after it.
\<close>

theorem UB_agrees_with_Ring:
  "UB K jde earth saturn =
     (case Ring K jde earth saturn of (B, B', dU, P, aEdge, bEdge) \<Rightarrow> (dU, B))"
  by (simp add: UB_def Ring_def cl_def split_beta)


section \<open>The iteration loop of the solvers\<close>

lemma exhausted_0: "exhausted step tol 0 E0"
  by (simp add: exhausted_def)

lemma exhausted_Suc:
  "exhausted step tol (Suc n) E0 \<longleftrightarrow>
     \<not> \<bar>step E0 - E0\<bar> < tol \<and> exhausted step tol n (step E0)"
proof -
  have "{..<Suc n} = insert 0 (Suc ` {..<n})"
    by (rule lessThan_Suc_eq_insert_0)
  then show ?thesis
    by (simp add: exhausted_def funpow_swap1)
qed

lemma iterate_tol_fails_iff:
  "iterate_tol step tol n E0 = Inl NonConvergence \<longleftrightarrow> exhausted step tol n E0"
  by (induction n arbitrary: E0) (simp_all add: exhausted_0 exhausted_Suc Let_def)

lemma converged_at_shift:
  "converged_at step tol (step E0) k E \<Longrightarrow> converged_at step tol E0 (Suc k) E"
  by (simp add: converged_at_def funpow_swap1)

lemma iterate_tol_succeeds:
  "iterate_tol step tol n E0 = Inr E \<Longrightarrow> \<exists>k<n. converged_at step tol E0 k E"
proof (induction n arbitrary: E0)
  case 0
  then show ?case by simp
next
  case (Suc n)
  show ?case
  proof (cases "\<bar>step E0 - E0\<bar> < tol")
    case True
    with Suc.prems have "converged_at step tol E0 0 E"
      by (auto simp: converged_at_def)
    then show ?thesis by blast
  next
    case False
    with Suc.prems have "iterate_tol step tol n (step E0) = Inr E" by simp
    from Suc.IH [OF this] obtain k where "k < n" "converged_at step tol (step E0) k E"
      by blast
    then have "Suc k < Suc n \<and> converged_at step tol E0 (Suc k) E"
      by (simp add: converged_at_shift)
    then show ?thesis by blast
  qed
qed

text \<open>
  Claim C2, as amended.  Each iterative solver (\<open>Kepler1\<close>, \<open>Kepler2\<close>, \<open>Kepler2a\<close>,
  \<open>Kepler2b\<close>) returns the non-convergence error exactly when the budget \<open>n\<close> is
  exhausted before the tolerance is met, and a successful result is an iterate
  whose correction met the tolerance within the budget, never a silent
  approximate answer.  With \<open>n = 1\<close>, \<open>Kepler1\<close> reports non-convergence exactly
  when \<open>e |sin M|\<close> is not below the tolerance.  The non-convergence result is
  different from the successful result with eccentric anomaly zero.
\<close>

theorem Kepler_NonConvergence_iff_exhausted:
  "(Kepler1 tol e M n = Inl NonConvergence \<longleftrightarrow> exhausted (Kepler1_step e M) tol (nat n) M) \<and>
   (Kepler2 tol e M n = Inl NonConvergence \<longleftrightarrow> exhausted (Kepler2_step e M) tol (nat n) M) \<and>
   (Kepler2a tol seed e M n = Inl NonConvergence \<longleftrightarrow>
      exhausted (Kepler2_step e M) tol (nat n) (seed e M)) \<and>
   (Kepler2b tol seed e M n = Inl NonConvergence \<longleftrightarrow>
      exhausted (Kepler2_step e M) tol (nat n) (seed e M)) \<and>
   (Kepler1 tol e M n = Inr E \<longrightarrow> (\<exists>k<nat n. converged_at (Kepler1_step e M) tol M k E)) \<and>
   (Kepler2 tol e M n = Inr E \<longrightarrow> (\<exists>k<nat n. converged_at (Kepler2_step e M) tol M k E)) \<and>
   (Kepler2a tol seed e M n = Inr E \<longrightarrow>
      (\<exists>k<nat n. converged_at (Kepler2_step e M) tol (seed e M) k E)) \<and>
   (Kepler2b tol seed e M n = Inr E \<longrightarrow>
      (\<exists>k<nat n. converged_at (Kepler2_step e M) tol (seed e M) k E)) \<and>
   (Kepler1 tol e M 1 = Inl NonConvergence \<longleftrightarrow> tol \<le> \<bar>e * sin M\<bar>) \<and>
   Inl NonConvergence \<noteq> (Inr 0 :: kepler_error + real)"
proof -
  have "Kepler1 tol e M 1 = Inl NonConvergence \<longleftrightarrow> tol \<le> \<bar>e * sin M\<bar>"
    by (simp add: Kepler1_def Kepler1_step_def Let_def not_less)
  then show ?thesis
    unfolding Kepler1_def Kepler2_def Kepler2a_def Kepler2b_def
    by (simp add: iterate_tol_fails_iff iterate_tol_succeeds)
qed

text \<open>
  The theorem at work: with \<open>e = 0.999\<close>, \<open>M = \<pi>/2\<close> and the budget \<open>n = 1\<close> the
  first correction is \<open>0.999\<close>, the budget is exhausted and \<open>Kepler1\<close> reports
  non-convergence; with \<open>e = 1/2\<close> and the tolerance \<open>1\<close> the first correction
  \<open>1/2\<close> meets the tolerance and the first iterate is returned.
\<close>

theorem Kepler_NonConvergence_iff_exhausted_witness:
  "Kepler1 (1 / 1000000) (999 / 1000) (pi / 2) 1 = Inl NonConvergence \<and>
   exhausted (Kepler1_step (999 / 1000) (pi / 2)) (1 / 1000000) (nat 1) (pi / 2) \<and>
   Kepler1 1 (1 / 2) (pi / 2) 1 = Inr (pi / 2 + 1 / 2) \<and>
   (\<exists>k<nat 1. converged_at (Kepler1_step (1 / 2) (pi / 2)) 1 (pi / 2) k (pi / 2 + 1 / 2))"
proof -
  have a: "Kepler1 (1 / 1000000) (999 / 1000) (pi / 2) 1 = Inl NonConvergence"
    using Kepler_NonConvergence_iff_exhausted [of "1 / 1000000" "999 / 1000" "pi / 2" 1]
    by simp
  have b: "Kepler1 1 (1 / 2) (pi / 2) 1 = Inr (pi / 2 + 1 / 2)"
    by (simp add: Kepler1_def Kepler1_step_def)
  from a b show ?thesis
    using Kepler_NonConvergence_iff_exhausted [of "1 / 1000000" "999 / 1000" "pi / 2" 1]
      Kepler_NonConvergence_iff_exhausted [of 1 "1 / 2" "pi / 2" 1 _ "pi / 2 + 1 / 2"]
    by simp
qed

text \<open>
  Claim C2 as stated fails: for \<open>e = 0.999\<close>, \<open>n = 1\<close> and \<open>M = 0\<close> the first
  iterate is \<open>0 + e sin 0 = 0\<close>, the correction is zero, and \<open>Kepler1\<close> succeeds
  with the eccentric anomaly zero (whatever the positive tolerance; here
  \<open>10\<^sup>-\<^sup>6\<close>).
\<close>

theorem Kepler1_succeeds_at_once_for_zero_anomaly:
  "Kepler1 (1 / 1000000) (999 / 1000) 0 1 = Inr 0 \<and>
   Kepler1 (1 / 1000000) (999 / 1000) 0 1 \<noteq> Inl NonConvergence"
  by (simp add: Kepler1_def Kepler1_step_def)


section \<open>The residual of Kepler's equation along the iterations\<close>

lemma sin_diff_le: "\<bar>sin a - sin b\<bar> \<le> \<bar>a - b\<bar>" for a b :: real
proof -
  have "\<bar>sin a - sin b\<bar> = 2 * \<bar>sin ((a - b) / 2)\<bar> * \<bar>cos ((a + b) / 2)\<bar>"
    by (simp add: sin_diff_sin abs_mult)
  also have "\<dots> \<le> 2 * \<bar>(a - b) / 2\<bar> * 1"
    by (intro mult_mono abs_cos_le_one abs_sin_x_le_abs_x) simp_all
  also have "\<dots> = \<bar>a - b\<bar>"
    by simp
  finally show ?thesis .
qed

lemma cos_diff_le: "\<bar>cos a - cos b\<bar> \<le> \<bar>a - b\<bar>" for a b :: real
proof -
  have "\<bar>cos a - cos b\<bar> = 2 * \<bar>sin ((a + b) / 2)\<bar> * \<bar>sin ((b - a) / 2)\<bar>"
    by (simp add: cos_diff_cos abs_mult)
  also have "\<dots> \<le> 2 * 1 * \<bar>(b - a) / 2\<bar>"
    by (intro mult_mono abs_sin_le_one abs_sin_x_le_abs_x) simp_all
  also have "\<dots> = \<bar>a - b\<bar>"
    by (simp add: abs_minus_commute)
  finally show ?thesis .
qed

text \<open>The mean value theorem for the sine, on either side of \<open>E\<close>.\<close>

lemma sin_increment:
  fixes E d :: real
  shows "\<exists>x. \<bar>x - E\<bar> \<le> \<bar>d\<bar> \<and> sin (E + d) - sin E = d * cos x"
proof -
  consider "d = 0" | "0 < d" | "d < 0" by linarith
  then show ?thesis
  proof cases
    case 1
    then show ?thesis by (intro exI [of _ E]) simp
  next
    case 2
    then have "E < E + d" by simp
    from MVT2 [OF this, of sin cos]
    obtain x where "E < x" "x < E + d" "sin (E + d) - sin E = (E + d - E) * cos x"
      by (auto intro: derivative_eq_intros)
    with 2 show ?thesis by (intro exI [of _ x]) simp
  next
    case 3
    then have "E + d < E" by simp
    from MVT2 [OF this, of sin cos]
    obtain x where "E + d < x" "x < E" "sin E - sin (E + d) = (E - (E + d)) * cos x"
      by (auto intro: derivative_eq_intros)
    with 3 show ?thesis by (intro exI [of _ x]) (simp add: algebra_simps)
  qed
qed

lemma Newton_residual_eq:
  assumes "1 - e * cos E \<noteq> 0"
  shows "residual e M E = - (Kepler2_step e M E - E) * (1 - e * cos E)"
  using assms by (simp add: residual_def Kepler2_step_def)

lemma Newton_residual_next:
  assumes "1 - e * cos E \<noteq> 0" and "d = Kepler2_step e M E - E"
  shows "residual e M (Kepler2_step e M E) = e * (d * cos E - (sin (E + d) - sin E))"
proof -
  have s: "Kepler2_step e M E = E + d" using assms(2) by simp
  have "E - e * sin E - M = - d * (1 - e * cos E)"
    using Newton_residual_eq [OF assms(1), of M] assms(2) by (simp add: residual_def)
  then show ?thesis
    unfolding s residual_def by (simp add: algebra_simps)
qed

text \<open>
  After a Newton-Raphson step with the correction \<open>d\<close> the residual is at most
  \<open>e d\<^sup>2\<close>.
\<close>

lemma Newton_residual_bound:
  assumes "0 \<le> e" and "1 - e * cos E \<noteq> 0"
  shows "\<bar>residual e M (Kepler2_step e M E)\<bar> \<le> e * (Kepler2_step e M E - E)\<^sup>2"
proof -
  define d where "d = Kepler2_step e M E - E"
  obtain x where x: "\<bar>x - E\<bar> \<le> \<bar>d\<bar>" "sin (E + d) - sin E = d * cos x"
    using sin_increment [of E d] by blast
  have "residual e M (Kepler2_step e M E) = e * (d * (cos E - cos x))"
    using Newton_residual_next [OF assms(2) d_def] x(2) by (simp add: algebra_simps)
  then have "\<bar>residual e M (Kepler2_step e M E)\<bar> = e * (\<bar>d\<bar> * \<bar>cos E - cos x\<bar>)"
    using assms(1) by (simp add: abs_mult)
  also have "\<dots> \<le> e * (\<bar>d\<bar> * \<bar>d\<bar>)"
  proof -
    have "\<bar>cos E - cos x\<bar> \<le> \<bar>d\<bar>"
      using cos_diff_le [of E x] x(1) by (simp add: abs_minus_commute)
    then show ?thesis
      using assms(1) by (intro mult_left_mono) simp_all
  qed
  finally show ?thesis by (simp add: d_def power2_eq_square)
qed


text \<open>
  Claim C8, as amended.  For \<open>0 \<le> e < 1\<close> and any \<open>M\<close>, a Newton-Raphson step
  (the step of \<open>Kepler2\<close>, \<open>Kepler2a\<close> and \<open>Kepler2b\<close>) from any iterate \<open>E\<close> strictly
  decreases the magnitude of the residual whenever its correction
  \<open>d = E' - E\<close> is not zero and \<open>e |d| < 1 - e cos E\<close>, that is, once the iterates
  are close to the root.
\<close>

theorem Newton_step_decreases_residual_near_root:
  assumes "0 \<le> e" and "e < 1"
    and "Kepler2_step e M E \<noteq> E"
    and "e * \<bar>Kepler2_step e M E - E\<bar> < 1 - e * cos E"
  shows "\<bar>residual e M (Kepler2_step e M E)\<bar> < \<bar>residual e M E\<bar>"
proof -
  define d where "d = Kepler2_step e M E - E"
  have d_nz: "d \<noteq> 0"
    using assms(3) by (simp add: d_def)
  have small: "e * \<bar>d\<bar> < 1 - e * cos E"
    using assms(4) by (simp add: d_def)
  have "0 \<le> e * \<bar>d\<bar>"
    using assms(1) by simp
  with small have pos: "0 < 1 - e * cos E"
    by linarith
  then have nz: "1 - e * cos E \<noteq> 0"
    by simp
  have "\<bar>residual e M (Kepler2_step e M E)\<bar> \<le> e * d\<^sup>2"
    using Newton_residual_bound [OF assms(1) nz, of M] by (simp add: d_def)
  also have "\<dots> = \<bar>d\<bar> * (e * \<bar>d\<bar>)"
    by (simp add: power2_eq_square)
  also have "\<dots> < \<bar>d\<bar> * (1 - e * cos E)"
    using d_nz small by (intro mult_strict_left_mono) simp_all
  also have "\<dots> = \<bar>residual e M E\<bar>"
    using Newton_residual_eq [OF nz, of M] pos by (simp add: abs_mult d_def)
  finally show ?thesis .
qed

text \<open>
  The theorem at work: for \<open>e = 1/2\<close> and \<open>M = \<pi>/2\<close> the step from \<open>E = M\<close> has
  the correction \<open>1/2\<close>, and \<open>e |d| = 1/4 < 1 = 1 - e cos E\<close>.
\<close>

theorem Newton_step_decreases_residual_near_root_witness:
  "(0::real) \<le> 1 / 2 \<and> (1 / 2 :: real) < 1 \<and>
   Kepler2_step (1 / 2) (pi / 2) (pi / 2) - pi / 2 = 1 / 2 \<and>
   (1 / 2 :: real) * \<bar>1 / 2\<bar> < 1 - 1 / 2 * cos (pi / 2) \<and>
   \<bar>residual (1 / 2) (pi / 2) (Kepler2_step (1 / 2) (pi / 2) (pi / 2))\<bar>
     < \<bar>residual (1 / 2) (pi / 2) (pi / 2)\<bar>"
proof -
  have d: "Kepler2_step (1 / 2) (pi / 2) (pi / 2) - pi / 2 = 1 / 2"
    by (simp add: Kepler2_step_def)
  then have ne: "Kepler2_step (1 / 2) (pi / 2) (pi / 2) \<noteq> pi / 2"
    by linarith
  have "\<bar>residual (1 / 2) (pi / 2) (Kepler2_step (1 / 2) (pi / 2) (pi / 2))\<bar>
     < \<bar>residual (1 / 2) (pi / 2) (pi / 2)\<bar>"
    by (rule Newton_step_decreases_residual_near_root [OF _ _ ne]) (simp_all add: d)
  with d show ?thesis by simp
qed

lemma sin_fifth_lower: "19 / 100 \<le> sin (1 / 5 :: real)"
proof -
  have "\<bar>sin (1 / 5 :: real) - (\<Sum>m<3. sin_coeff m * (1 / 5) ^ m)\<bar>
          \<le> inverse (fact 3) * \<bar>1 / 5 :: real\<bar> ^ 3"
    by (rule Maclaurin_sin_bound)
  moreover have "(\<Sum>m<3. sin_coeff m * (1 / 5 :: real) ^ m) = 1 / 5"
    by (simp add: sin_coeff_def numeral_3_eq_3)
  moreover have "inverse (fact 3) * \<bar>1 / 5 :: real\<bar> ^ 3 = 1 / 750"
    by (simp add: fact_numeral power3_eq_cube)
  ultimately have "\<bar>sin (1 / 5 :: real) - 1 / 5\<bar> \<le> 1 / 750" by simp
  then show ?thesis by linarith
qed

lemma cos_fifth_lower: "98 / 100 \<le> cos (1 / 5 :: real)"
proof -
  have "cos (1 / 5 :: real) = 1 - 2 * (sin (1 / 10 :: real))\<^sup>2"
    using cos_double_sin [of "1 / 10 :: real"] by simp
  moreover have "(sin (1 / 10 :: real))\<^sup>2 \<le> (1 / 10)\<^sup>2"
    using abs_sin_x_le_abs_x [of "1 / 10 :: real"] by (intro abs_le_square_iff [THEN iffD1]) simp
  ultimately show ?thesis by (simp add: power2_eq_square)
qed

text \<open>
  Claim C8 as stated fails: for \<open>e = 0.99\<close> and \<open>M = 0.2\<close> the first
  Newton-Raphson step from \<open>E\<^sub>0 = M\<close> has a correction larger than 1 (about
  6.6), so the iteration goes on for every tolerance up to 1, and the residual
  grows from at most 0.198 to at least 0.198 (in fact to about 6.1).
\<close>

theorem Newton_first_step_increases_residual:
  "1 \<le> \<bar>Kepler2_step (99 / 100) (1 / 5) (1 / 5) - 1 / 5\<bar> \<and>
   \<not> \<bar>residual (99 / 100) (1 / 5) (Kepler2_step (99 / 100) (1 / 5) (1 / 5))\<bar>
       < \<bar>residual (99 / 100) (1 / 5) (1 / 5)\<bar>"
proof -
  let ?e = "99 / 100 :: real" and ?M = "1 / 5 :: real"
  define q where "q = 1 - ?e * cos ?M"
  define d where "d = ?e * sin ?M / q"
  have q_pos: "0 < q"
    unfolding q_def using cos_le_one [of ?M] by linarith
  have q_le: "q \<le> 298 / 10000"
    using cos_fifth_lower by (simp add: q_def)
  have "1188 / 1000 * q \<le> ?e * sin ?M"
    using q_le sin_fifth_lower by simp
  then have d_ge: "1188 / 1000 \<le> d"
    using q_pos by (simp add: d_def pos_le_divide_eq)
  have step: "Kepler2_step ?e ?M ?M = ?M + d"
    by (simp add: Kepler2_step_def d_def q_def)
  have r: "residual ?e ?M (?M + d) = d - ?e * sin (?M + d)"
    by (simp add: residual_def)
  have "sin (?M + d) \<le> 1"
    by (rule sin_le_one)
  with d_ge have new: "198 / 1000 \<le> residual ?e ?M (?M + d)"
    unfolding r by linarith
  have "\<bar>residual ?e ?M ?M\<bar> = ?e * \<bar>sin ?M\<bar>"
    by (simp add: residual_def abs_mult)
  also have "\<dots> \<le> ?e * \<bar>?M\<bar>"
    by (intro mult_left_mono abs_sin_x_le_abs_x) simp
  finally have old: "\<bar>residual ?e ?M ?M\<bar> \<le> 198 / 1000" by simp
  have "1 \<le> \<bar>(?M + d) - ?M\<bar>"
    using d_ge by simp
  moreover have "\<not> \<bar>residual ?e ?M (?M + d)\<bar> < \<bar>residual ?e ?M ?M\<bar>"
    using new old by linarith
  ultimately show ?thesis
    unfolding step by blast
qed


section \<open>The residual of a successful result\<close>

text \<open>
  When \<open>Kepler1\<close> succeeds, the residual of its result is below the tolerance;
  when a Newton-Raphson solver succeeds, from whatever initial guess, the
  residual of its result is at most \<open>e tol\<^sup>2\<close>.
\<close>

lemma Kepler1_success_residual:
  assumes "0 \<le> e" and "e < 1" and "Kepler1 tol e M n = Inr E"
  shows "\<bar>residual e M E\<bar> < tol"
proof -
  obtain k where "converged_at (Kepler1_step e M) tol M k E"
    using iterate_tol_succeeds [of "Kepler1_step e M" tol "nat n" M E] assms(3)
    by (auto simp: Kepler1_def)
  then obtain E0 where E: "E = Kepler1_step e M E0" and c: "\<bar>E - E0\<bar> < tol"
    by (auto simp: converged_at_def)
  have "residual e M E = e * (sin E0 - sin E)"
    by (simp add: residual_def E Kepler1_step_def algebra_simps)
  then have "\<bar>residual e M E\<bar> = e * \<bar>sin E0 - sin E\<bar>"
    using assms(1) by (simp add: abs_mult)
  also have "\<dots> \<le> 1 * \<bar>E0 - E\<bar>"
    using assms(1,2) sin_diff_le [of E0 E] by (intro mult_mono) simp_all
  also have "\<dots> < tol"
    using c by (simp add: abs_minus_commute)
  finally show ?thesis .
qed

lemma Newton_success_residual:
  assumes "0 \<le> e" and "e < 1" and "iterate_tol (Kepler2_step e M) tol n E0 = Inr E"
  shows "\<bar>residual e M E\<bar> \<le> e * tol\<^sup>2"
proof -
  obtain k where "converged_at (Kepler2_step e M) tol E0 k E"
    using iterate_tol_succeeds [OF assms(3)] by blast
  then obtain E' where E: "E = Kepler2_step e M E'" and c: "\<bar>E - E'\<bar> < tol"
    by (auto simp: converged_at_def)
  have "e * cos E' \<le> e * 1"
    using assms(1) by (intro mult_left_mono) simp_all
  with assms(2) have nz: "1 - e * cos E' \<noteq> 0"
    by simp
  have "\<bar>residual e M E\<bar> \<le> e * (E - E')\<^sup>2"
    unfolding E by (rule Newton_residual_bound [OF assms(1) nz])
  also have "\<dots> \<le> e * tol\<^sup>2"
  proof -
    have "(E - E')\<^sup>2 \<le> tol\<^sup>2"
      using c by (intro abs_le_square_iff [THEN iffD1]) simp
    then show ?thesis
      using assms(1) by (intro mult_left_mono)
  qed
  finally show ?thesis .
qed

end
